theory Spec2Isabelle
  imports Main "HOL-Library.AList"
begin

section \<open>Python values, exceptions and the outside world\<close>

text \<open>
  The values that travel through \<^verbatim>\<open>app.py\<close> are the ones \<^verbatim>\<open>json.loads\<close> and
  \<^verbatim>\<open>response.json()\<close> produce and \<^verbatim>\<open>json.dumps\<close> consumes: \<^verbatim>\<open>None\<close>, booleans,
  integers, strings, lists and dictionaries with string keys. A dictionary is an
  association list in insertion order; \<open>AList.update\<close> is Python's \<^verbatim>\<open>d[k] = v\<close>
  (an existing key keeps its place and gets the new value, a new key goes to the end).
  Non-integer numbers are left out: no operation of the program computes with a number.
\<close>

datatype json =
    JNull
  | JBool bool
  | JInt int
  | JStr string
  | JList "json list"
  | JObj "(string \<times> json) list"

type_synonym dict = "(string \<times> json) list"

text \<open>
  One constructor for each way an exception can arise below. The first group is raised
  by the Python runtime inside the program; the second group is handed in by the
  libraries the program calls (\<^verbatim>\<open>json\<close>, \<^verbatim>\<open>requests\<close>, the file system).
\<close>

datatype exn =
    KeyError string                      \<comment> \<open>\<^verbatim>\<open>d[k]\<close> with \<^verbatim>\<open>k\<close> absent\<close>
  | NotSubscriptable json string         \<comment> \<open>TypeError: \<^verbatim>\<open>v[k]\<close> where \<^verbatim>\<open>v\<close> is no dictionary\<close>
  | NotIterable json                     \<comment> \<open>TypeError: \<^verbatim>\<open>for x in v\<close>\<close>
  | NoAttribute json string              \<comment> \<open>AttributeError: \<^verbatim>\<open>v.replace\<close>\<close>
  | NotAMapping json                     \<comment> \<open>TypeError: \<^verbatim>\<open>f(**v)\<close> where \<^verbatim>\<open>v\<close> is no dictionary\<close>
  | MultipleValues string string         \<comment> \<open>TypeError: keyword \<^verbatim>\<open>self\<close> given to a bound method\<close>
  | UnexpectedKeyword string string      \<comment> \<open>TypeError: keyword that is no parameter\<close>
  | MissingArguments string "string list"  \<comment> \<open>TypeError: required parameters not given\<close>
  | CannotConcatenate json               \<comment> \<open>TypeError: \<^verbatim>\<open>v + ".csv"\<close> where \<^verbatim>\<open>v\<close> is no string\<close>
  | WriteArgument json                   \<comment> \<open>TypeError: \<^verbatim>\<open>f.write(v)\<close> where \<^verbatim>\<open>v\<close> is no string\<close>
  | JSONDecodeError string               \<comment> \<open>raised by \<^verbatim>\<open>json.loads\<close> or \<^verbatim>\<open>response.json()\<close>\<close>
  | RequestException string              \<comment> \<open>raised by \<^verbatim>\<open>requests.get\<close>\<close>
  | OSError string                       \<comment> \<open>raised by \<^verbatim>\<open>open\<close> or \<^verbatim>\<open>f.write\<close>\<close>

record response =
  status_code :: int
  json_body :: "exn + json"   \<comment> \<open>what \<^verbatim>\<open>response.json()\<close> returns or raises\<close>

datatype message =
    ChatMessage string string        \<comment> \<open>role, content\<close>
  | FunctionMessage string string    \<comment> \<open>name, content\<close>

record function_call =
  fc_name :: string
  fc_arguments :: string

record ai_message =
  ai_content :: string
  ai_function_call :: "function_call option"
    \<comment> \<open>\<^verbatim>\<open>additional_kwargs["function_call"]\<close>, \<open>None\<close> when the key is absent\<close>

text \<open>
  The world the program changes: the number of HTTP requests issued so far (the server
  may answer the same URL differently each time, so every request is numbered), the
  working directory, and the content of the files. A file is known by its canonical
  name: every file has one, and two paths that reach one file (through \<^verbatim>\<open>.\<close>, \<^verbatim>\<open>..\<close>, a
  repeated \<^verbatim>\<open>/\<close> or a link) have the same, so that they read and write the same content.
\<close>

record world =
  requests :: nat
  cwd :: string
  files :: "string \<rightharpoonup> string"

text \<open>
  The collaborators the program calls but does not define. \<open>http_get\<close> is
  \<^verbatim>\<open>requests.get(url, params=params)\<close> for the request with the given number;
  \<open>llm\<close> is the chat model applied to the history; \<open>py_str\<close> is Python's \<^verbatim>\<open>str\<close> on a
  value, \<open>exc_str\<close> on an exception; \<open>canonical\<close> is the operating system's
  resolution of an absolute path to the canonical name of the file it names;
  \<open>open_fault\<close> tells whether \<^verbatim>\<open>open(path, 'w')\<close> raises for the file of that canonical
  name; \<open>write_fault\<close> tells whether \<^verbatim>\<open>f.write(text)\<close> raises and what has reached the file
  by then.
\<close>

record env =
  openai_api_key :: "string option"
  llm :: "message list \<Rightarrow> ai_message"
  http_get :: "nat \<Rightarrow> string \<Rightarrow> dict \<Rightarrow> exn + response"
  json_loads :: "string \<Rightarrow> exn + json"
  json_dumps :: "json \<Rightarrow> string"
  py_str :: "json \<Rightarrow> string"
  exc_str :: "exn \<Rightarrow> string"
  canonical :: "string \<Rightarrow> string"
  open_fault :: "string \<Rightarrow> exn option"
  write_fault :: "string \<Rightarrow> string \<Rightarrow> (string \<times> exn) option"

subsection \<open>Built-in operations\<close>

text \<open>\<^verbatim>\<open>str(n)\<close> for an integer: its decimal digits, with a minus sign when negative.\<close>

definition digit_char :: "nat \<Rightarrow> char" where
  "digit_char d = ''0123456789'' ! d"

fun str_nat :: "nat \<Rightarrow> string" where
  "str_nat n = (if n < 10 then [digit_char n] else str_nat (n div 10) @ [digit_char (n mod 10)])"

declare str_nat.simps [simp del]

definition str_int :: "int \<Rightarrow> string" where
  "str_int i = (if i < 0 then CHR ''-'' # str_nat (nat (- i)) else str_nat (nat i))"

text \<open>A value inside an f-string: a string stands for itself, anything else goes through \<^verbatim>\<open>str\<close>.\<close>

definition py_format :: "env \<Rightarrow> json \<Rightarrow> string" where
  "py_format E v = (case v of JStr s \<Rightarrow> s | _ \<Rightarrow> py_str E v)"

text \<open>\<^verbatim>\<open>v[k]\<close> with a string key \<^verbatim>\<open>k\<close>.\<close>

definition py_getitem :: "json \<Rightarrow> string \<Rightarrow> exn + json" where
  "py_getitem v k =
     (case v of
        JObj kvs \<Rightarrow> (case map_of kvs k of Some x \<Rightarrow> Inr x | None \<Rightarrow> Inl (KeyError k))
      | _ \<Rightarrow> Inl (NotSubscriptable v k))"

text \<open>\<^verbatim>\<open>v[k1][k2]...\<close>, left to right, stopping at the first exception.\<close>

fun get_path :: "json \<Rightarrow> string list \<Rightarrow> exn + json" where
  "get_path v [] = Inr v"
| "get_path v (k # ks) = (case py_getitem v k of Inl e \<Rightarrow> Inl e | Inr x \<Rightarrow> get_path x ks)"

text \<open>The items \<^verbatim>\<open>for x in v\<close> visits: a dictionary yields its keys, a string its characters.\<close>

definition py_iter :: "json \<Rightarrow> exn + json list" where
  "py_iter v =
     (case v of
        JList xs \<Rightarrow> Inr xs
      | JObj kvs \<Rightarrow> Inr (map (\<lambda>kv. JStr (fst kv)) kvs)
      | JStr s \<Rightarrow> Inr (map (\<lambda>c. JStr [c]) s)
      | _ \<Rightarrow> Inl (NotIterable v))"

text \<open>
  \<^verbatim>\<open>s.replace(" ", "")\<close> and \<^verbatim>\<open>s.split(",")\<close>: the pieces between the separators, the
  empty ones too.
\<close>

definition remove_spaces :: "string \<Rightarrow> string" where
  "remove_spaces s = filter (\<lambda>c. c \<noteq> CHR '' '') s"

fun split_on :: "char \<Rightarrow> string \<Rightarrow> string list" where
  "split_on sep [] = [Nil]"
| "split_on sep (c # cs) =
     (if c = sep then [] # split_on sep cs
      else (case split_on sep cs of [] \<Rightarrow> [c # Nil] | w # ws \<Rightarrow> (c # w) # ws))"

text \<open>One more request has been issued.\<close>

definition tick :: "world \<Rightarrow> world" where
  "tick w = w\<lparr>requests := Suc (requests w)\<rparr>"

section \<open>The functions offered to the model\<close>

subsection \<open>\<^verbatim>\<open>get_field_info\<close>\<close>

definition split_ids :: "string \<Rightarrow> string list" where
  "split_ids nct_ids = split_on CHR '','' (remove_spaces nct_ids)"

text \<open>A \<^verbatim>\<open>try: temp_output = data[...]...[...]  except: temp_output = fallback\<close> block.\<close>

definition try_path :: "json \<Rightarrow> string list \<Rightarrow> string \<Rightarrow> json" where
  "try_path data path fallback = (case get_path data path of Inr v \<Rightarrow> v | Inl _ \<Rightarrow> JStr fallback)"

definition invalid_field_message :: "env \<Rightarrow> json \<Rightarrow> string" where
  "invalid_field_message E field =
     ''Field '' @ py_format E field @
     '' is not a valid field. Valid fields are: studyArmsInterventions, patientConditions, studySummary, studyDesign, patientEligibility, organizations, primaryOutcomes, secondaryOutcomes, references, statusDates.''"

text \<open>The \<^verbatim>\<open>if field == ... elif ... else\<close> chain applied to the document of a 200 response.\<close>

definition select_field :: "env \<Rightarrow> json \<Rightarrow> json \<Rightarrow> json" where
  "select_field E field data =
     (if field = JStr ''interventionAlone'' then
        try_path data [''derivedSection'', ''interventionBrowseModule'', ''browseLeaves'']
          ''No interventions found''
      else if field = JStr ''studyArmsInterventions'' then
        try_path data [''protocolSection'', ''armsInterventionsModule'', ''armGroups'']
          ''No arms or interventions found''
      else if field = JStr ''patientConditions'' then
        try_path data [''protocolSection'', ''conditionsModule'', ''conditions'']
          ''No conditions found''
      else if field = JStr ''studySummary'' then
        try_path data [''protocolSection'', ''descriptionModule'', ''briefSummary'']
          ''No brief summary found''
      else if field = JStr ''studyDesign'' then
        try_path data [''protocolSection'', ''designModule'']
          ''No study design found''
      else if field = JStr ''patientEligibility'' then
        try_path data [''protocolSection'', ''eligibilityModule'']
          ''No eligibility criteria found''
      else if field = JStr ''organizations'' then
        try_path data [''protocolSection'', ''sponsorsCollaboratorsModule'']
          ''No organizations found''
      else if field = JStr ''primaryOutcomes'' then
        try_path data [''protocolSection'', ''outcomesModule'', ''primaryOutcomes'']
          ''No primary outcomes found''
      else if field = JStr ''secondaryOutcomes'' then
        try_path data [''protocolSection'', ''outcomesModule'', ''secondaryOutcomes'']
          ''No secondary outcomes found''
      else if field = JStr ''references'' then
        try_path data [''protocolSection'', ''referencesModule'', ''references'']
          ''No references found''
      else if field = JStr ''statusDates'' then
        try_path data [''protocolSection'', ''statusModule'']
          ''No status dates found''
      else JStr (invalid_field_message E field))"

definition status_message :: "int \<Rightarrow> string" where
  "status_message c = ''Request failed with status code '' @ str_int c"

text \<open>
  The body of the second loop after \<^verbatim>\<open>requests.get\<close> has returned: \<^verbatim>\<open>temp_output\<close>, or the
  exception of \<^verbatim>\<open>response.json()\<close>, which no \<^verbatim>\<open>try\<close> of the function encloses.
\<close>

definition temp_output :: "env \<Rightarrow> json \<Rightarrow> response \<Rightarrow> exn + json" where
  "temp_output E field r =
     (if status_code r = 200 then
        (case json_body r of Inl e \<Rightarrow> Inl e | Inr data \<Rightarrow> Inr (select_field E field data))
      else Inr (JStr (status_message (status_code r))))"

definition study_url :: "string \<Rightarrow> string" where
  "study_url nct_id = ''https://www.clinicaltrials.gov/api/v2/studies/'' @ nct_id"

text \<open>The first loop: \<^verbatim>\<open>data_out[nct_id] = None\<close> for each identifier.\<close>

fun init_loop :: "string list \<Rightarrow> dict \<Rightarrow> dict" where
  "init_loop [] d = d"
| "init_loop (nct_id # rest) d = init_loop rest (AList.update nct_id JNull d)"

text \<open>The second loop: one request for each identifier, in order; an exception ends it.\<close>

fun fetch_loop :: "env \<Rightarrow> json \<Rightarrow> string list \<Rightarrow> world \<Rightarrow> dict \<Rightarrow> (exn + dict) \<times> world" where
  "fetch_loop E field [] w d = (Inr d, w)"
| "fetch_loop E field (nct_id # rest) w d =
     (case http_get E (requests w) (study_url nct_id) [] of
        Inl e \<Rightarrow> (Inl e, tick w)
      | Inr r \<Rightarrow>
          (case temp_output E field r of
             Inl e \<Rightarrow> (Inl e, tick w)
           | Inr t \<Rightarrow> fetch_loop E field rest (tick w) (AList.update nct_id t d)))"

definition get_field_info :: "env \<Rightarrow> world \<Rightarrow> json \<Rightarrow> json \<Rightarrow> (exn + json) \<times> world" where
  "get_field_info E w nct_ids field =
     (case nct_ids of
        JStr s \<Rightarrow>
          (let ids = split_ids s;
               data_out = [(''nct_ids'', JList (map JStr ids)), (''field'', field)];
               data_out = init_loop ids data_out
           in case fetch_loop E field ids w data_out of
                (Inl e, w') \<Rightarrow> (Inl e, w')
              | (Inr d, w') \<Rightarrow> (Inr (JObj d), w'))
      | _ \<Rightarrow> (Inl (NoAttribute nct_ids ''replace''), w))"

subsection \<open>\<^verbatim>\<open>study_search\<close>\<close>

definition search_url :: string where
  "search_url = ''https://www.clinicaltrials.gov/api/v2/studies''"

definition search_params :: "json \<Rightarrow> json \<Rightarrow> dict" where
  "search_params query_term pageSize =
     [(''format'', JStr ''json''), (''query.parser'', JStr ''advanced''),
      (''query.term'', query_term), (''pageSize'', pageSize)]"

definition brief_title :: "json \<Rightarrow> exn + json" where
  "brief_title study = get_path study [''protocolSection'', ''identificationModule'', ''briefTitle'']"

definition nct_id_of :: "json \<Rightarrow> exn + json" where
  "nct_id_of study = get_path study [''protocolSection'', ''identificationModule'', ''nctId'']"

text \<open>The loop over \<^verbatim>\<open>study_data\<close>, appending to \<^verbatim>\<open>study_names\<close> and \<^verbatim>\<open>nct_ids\<close>.\<close>

fun collect_studies :: "json list \<Rightarrow> json list \<Rightarrow> json list \<Rightarrow> exn + (json list \<times> json list)" where
  "collect_studies [] study_names nct_ids = Inr (study_names, nct_ids)"
| "collect_studies (study # rest) study_names nct_ids =
     (case brief_title study of
        Inl e \<Rightarrow> Inl e
      | Inr t \<Rightarrow>
          (case nct_id_of study of
             Inl e \<Rightarrow> Inl e
           | Inr i \<Rightarrow> collect_studies rest (study_names @ [t]) (nct_ids @ [i])))"

text \<open>What \<^verbatim>\<open>study_search\<close> does with the response once \<^verbatim>\<open>requests.get\<close> has returned.\<close>

definition search_result :: "json \<Rightarrow> json \<Rightarrow> response \<Rightarrow> exn + json" where
  "search_result query_term pageSize r =
     (if status_code r = 200 then
        (case json_body r of
           Inl e \<Rightarrow> Inl e
         | Inr data \<Rightarrow>
             (case py_getitem data ''studies'' of
                Inl e \<Rightarrow> Inl e
              | Inr study_data \<Rightarrow>
                  (case py_iter study_data of
                     Inl e \<Rightarrow> Inl e
                   | Inr studies \<Rightarrow>
                       (case collect_studies studies [] [] of
                          Inl e \<Rightarrow> Inl e
                        | Inr (study_names, nct_ids) \<Rightarrow>
                            Inr (JObj [(''Query Term'', query_term),
                                       (''Page Size'', pageSize),
                                       (''Number of Results'', JInt (int (length study_names))),
                                       (''Study Name'', JList study_names),
                                       (''NCT_ID'', JList nct_ids)])))))
      else Inr (JStr (status_message (status_code r))))"

definition study_search :: "env \<Rightarrow> world \<Rightarrow> json \<Rightarrow> json \<Rightarrow> (exn + json) \<times> world" where
  "study_search E w query_term pageSize =
     (case http_get E (requests w) search_url (search_params query_term pageSize) of
        Inl e \<Rightarrow> (Inl e, tick w)
      | Inr r \<Rightarrow> (search_result query_term pageSize r, tick w))"

subsection \<open>\<^verbatim>\<open>save_csv\<close>\<close>

text \<open>
  The absolute path behind the path given to \<^verbatim>\<open>open\<close>: an absolute path stands for itself,
  any other path is taken from the working directory. Which file that path names is
  \<open>canonical\<close>'s to say.
\<close>

definition resolve_path :: "string \<Rightarrow> string \<Rightarrow> string" where
  "resolve_path dir p =
     (case p of [] \<Rightarrow> dir @ ''/'' @ p
      | c # _ \<Rightarrow> if c = CHR ''/'' then p else dir @ ''/'' @ p)"

definition write_file :: "world \<Rightarrow> string \<Rightarrow> string \<Rightarrow> world" where
  "write_file w target s = w\<lparr>files := (files w)(target \<mapsto> s)\<rparr>"

definition saving_error :: "env \<Rightarrow> exn \<Rightarrow> exn + json" where
  "saving_error E e = Inr (JStr (''Error saving file: '' @ exc_str E e))"

text \<open>
  \<^verbatim>\<open>title + ".csv"\<close> raises unless \<^verbatim>\<open>title\<close> is a string; \<^verbatim>\<open>open(..., 'w')\<close> empties the
  file before anything is written; \<^verbatim>\<open>f.write(text)\<close> raises unless \<^verbatim>\<open>text\<close> is a string.
  Every exception is caught and becomes the returned string.
\<close>

definition save_csv :: "env \<Rightarrow> world \<Rightarrow> json \<Rightarrow> json \<Rightarrow> (exn + json) \<times> world" where
  "save_csv E w text title =
     (case title of
        JStr t \<Rightarrow>
          (let target = canonical E (resolve_path (cwd w) (t @ ''.csv'')) in
           case open_fault E target of
             Some e \<Rightarrow> (saving_error E e, w)
           | None \<Rightarrow>
               (case text of
                  JStr s \<Rightarrow>
                    (case write_fault E target s of
                       Some (written, e) \<Rightarrow> (saving_error E e, write_file w target written)
                     | None \<Rightarrow>
                         (Inr (JStr (''Saved to:'' @ cwd w @ ''/'' @ t @ ''.csv'')),
                          write_file w target s))
                | _ \<Rightarrow> (saving_error E (WriteArgument text), write_file w target [])))
      | _ \<Rightarrow> (saving_error E (CannotConcatenate title), w))"

section \<open>The function registry and the dispatch loop\<close>

datatype handler = StudySearch | GetFieldInfo | SaveCsv

definition function_map :: "string \<rightharpoonup> handler" where
  "function_map =
     map_of [(''study_search'', StudySearch),
             (''get_field_info'', GetFieldInfo),
             (''save_csv'', SaveCsv)]"

definition handler_name :: "handler \<Rightarrow> string" where
  "handler_name f =
     (case f of StudySearch \<Rightarrow> ''study_search'' | GetFieldInfo \<Rightarrow> ''get_field_info''
      | SaveCsv \<Rightarrow> ''save_csv'')"

text \<open>The parameters of each method after \<^verbatim>\<open>self\<close>, with the default where there is one.\<close>

definition parameters :: "handler \<Rightarrow> (string \<times> json option) list" where
  "parameters f =
     (case f of
        StudySearch \<Rightarrow> [(''query_term'', Some JNull), (''pageSize'', Some (JInt 10))]
      | GetFieldInfo \<Rightarrow> [(''nct_ids'', None), (''field'', None)]
      | SaveCsv \<Rightarrow> [(''text'', Some JNull), (''title'', Some JNull)])"

text \<open>
  \<^verbatim>\<open>function_to_call(**function_args)\<close> up to the entry into the method. The keywords are
  matched against the parameters in the order of the dictionary, and the first one that
  is no parameter after \<^verbatim>\<open>self\<close> ends the call: \<^verbatim>\<open>self\<close> has its value already, any other
  name is unexpected. Then the parameters without a default must all be given. The
  result gives each parameter its value.
\<close>

definition bind_arguments :: "handler \<Rightarrow> json \<Rightarrow> exn + (string \<Rightarrow> json)" where
  "bind_arguments f function_args =
     (case function_args of
        JObj kvs \<Rightarrow>
          (case filter (\<lambda>k. k \<notin> set (map fst (parameters f))) (map fst kvs) of
             k # _ \<Rightarrow>
               if k = ''self'' then Inl (MultipleValues (handler_name f) k)
               else Inl (UnexpectedKeyword (handler_name f) k)
           | [] \<Rightarrow>
               (case filter (\<lambda>p. snd p = None \<and> map_of kvs (fst p) = None) (parameters f) of
                  [] \<Rightarrow>
                    Inr (\<lambda>p. case map_of kvs p of
                               Some v \<Rightarrow> v
                             | None \<Rightarrow>
                                 (case map_of (parameters f) p of
                                    Some (Some dflt) \<Rightarrow> dflt
                                  | _ \<Rightarrow> JNull))
                | missing \<Rightarrow> Inl (MissingArguments (handler_name f) (map fst missing))))
      | _ \<Rightarrow> Inl (NotAMapping function_args))"

definition call_function :: "env \<Rightarrow> handler \<Rightarrow> json \<Rightarrow> world \<Rightarrow> (exn + json) \<times> world" where
  "call_function E f function_args w =
     (case bind_arguments f function_args of
        Inl e \<Rightarrow> (Inl e, w)
      | Inr a \<Rightarrow>
          (case f of
             StudySearch \<Rightarrow> study_search E w (a ''query_term'') (a ''pageSize'')
           | GetFieldInfo \<Rightarrow> get_field_info E w (a ''nct_ids'') (a ''field'')
           | SaveCsv \<Rightarrow> save_csv E w (a ''text'') (a ''title'')))"

text \<open>How a turn ends: with the model's answer, at \<^verbatim>\<open>st.stop()\<close>, or with an exception nobody caught.\<close>

datatype outcome = Answered | Stopped | Raised exn

definition function_call_message :: "env \<Rightarrow> string \<Rightarrow> json \<Rightarrow> string" where
  "function_call_message E function_name function_args =
     ''Calling function '' @ function_name @ '' with arguments: '' @ py_format E function_args"

text \<open>The \<^verbatim>\<open>try\<close>/\<^verbatim>\<open>except\<close> around the call: the value returned, or the text made of the exception.\<close>

definition function_response :: "env \<Rightarrow> exn + json \<Rightarrow> json" where
  "function_response E res =
     (case res of
        Inr v \<Rightarrow> v
      | Inl e \<Rightarrow> JStr (''Function call failed with error: '' @ exc_str E e))"

text \<open>
  The \<^verbatim>\<open>while\<close> loop and the statement after it, from a response of the model. The loop
  has no bound, so the function is partial: \<open>None\<close> is a loop that never ends. The result
  is the outcome, the world and \<^verbatim>\<open>st.session_state.messages\<close> as they are when the
  script ends.
\<close>

partial_function (option) dispatch_loop ::
  "env \<Rightarrow> world \<Rightarrow> message list \<Rightarrow> ai_message \<Rightarrow> (outcome \<times> world \<times> message list) option"
where
  "dispatch_loop E w messages response =
     (case ai_function_call response of
        None \<Rightarrow> Some (Answered, w, messages @ [ChatMessage ''assistant'' (ai_content response)])
      | Some fc \<Rightarrow>
          (case function_map (fc_name fc) of
             None \<Rightarrow> Some (Raised (KeyError (fc_name fc)), w, messages)
           | Some function_to_call \<Rightarrow>
               (case json_loads E (fc_arguments fc) of
                  Inl e \<Rightarrow> Some (Raised e, w, messages)
                | Inr function_args \<Rightarrow>
                    (let messages1 = messages @
                           [ChatMessage ''system''
                              (function_call_message E (fc_name fc) function_args)];
                         res = call_function E function_to_call function_args w;
                         messages2 = messages1 @
                           [FunctionMessage (fc_name fc)
                              (json_dumps E (function_response E (fst res)))]
                     in dispatch_loop E (snd res) messages2 (llm E messages2)))))"

text \<open>A turn: the block under \<^verbatim>\<open>if prompt := st.chat_input()\<close>.\<close>

definition run_turn ::
  "env \<Rightarrow> world \<Rightarrow> message list \<Rightarrow> string \<Rightarrow> (outcome \<times> world \<times> message list) option" where
  "run_turn E w messages prompt =
     (let messages1 = messages @ [ChatMessage ''user'' prompt] in
      case openai_api_key E of
        None \<Rightarrow> Some (Stopped, w, messages1)
      | Some k \<Rightarrow>
          if k = [] then Some (Stopped, w, messages1)
          else dispatch_loop E w messages1 (llm E messages1))"

section \<open>Vocabulary of the properties\<close>

text \<open>
  The eleven field names \<^verbatim>\<open>get_field_info\<close> recognises, each with the path it reads in
  the study record and the string it falls back to. The program itself is the chain of
  comparisons in \<open>select_field\<close>; the table states what that chain is claimed to do.
\<close>

definition field_table :: "(string \<times> string list \<times> string) list" where
  "field_table =
     [(''interventionAlone'',
         [''derivedSection'', ''interventionBrowseModule'', ''browseLeaves''],
         ''No interventions found''),
      (''studyArmsInterventions'',
         [''protocolSection'', ''armsInterventionsModule'', ''armGroups''],
         ''No arms or interventions found''),
      (''patientConditions'',
         [''protocolSection'', ''conditionsModule'', ''conditions''],
         ''No conditions found''),
      (''studySummary'',
         [''protocolSection'', ''descriptionModule'', ''briefSummary''],
         ''No brief summary found''),
      (''studyDesign'', [''protocolSection'', ''designModule''], ''No study design found''),
      (''patientEligibility'', [''protocolSection'', ''eligibilityModule''],
         ''No eligibility criteria found''),
      (''organizations'', [''protocolSection'', ''sponsorsCollaboratorsModule''],
         ''No organizations found''),
      (''primaryOutcomes'', [''protocolSection'', ''outcomesModule'', ''primaryOutcomes''],
         ''No primary outcomes found''),
      (''secondaryOutcomes'', [''protocolSection'', ''outcomesModule'', ''secondaryOutcomes''],
         ''No secondary outcomes found''),
      (''references'', [''protocolSection'', ''referencesModule'', ''references''],
         ''No references found''),
      (''statusDates'', [''protocolSection'', ''statusModule''], ''No status dates found'')]"

text \<open>
  The request the second loop of \<^verbatim>\<open>get_field_info\<close> issues for the identifier at
  position \<open>j\<close>, when the call starts in world \<open>w\<close>.
\<close>

definition nth_request :: "env \<Rightarrow> world \<Rightarrow> string list \<Rightarrow> nat \<Rightarrow> exn + response" where
  "nth_request E w ids j = http_get E (requests w + j) (study_url (ids ! j)) []"

text \<open>
  A request is answered when \<^verbatim>\<open>requests.get\<close> returns a response and, for status 200,
  \<^verbatim>\<open>response.json()\<close> returns a document: nothing outside the program raises.
\<close>

definition answered :: "exn + response \<Rightarrow> bool" where
  "answered a =
     (case a of
        Inl _ \<Rightarrow> False
      | Inr r \<Rightarrow> status_code r \<noteq> 200 \<or> (case json_body r of Inl _ \<Rightarrow> False | Inr _ \<Rightarrow> True))"

text \<open>The document of a 200 response.\<close>

definition document_of :: "exn + response \<Rightarrow> json option" where
  "document_of a =
     (case a of
        Inl _ \<Rightarrow> None
      | Inr r \<Rightarrow>
          if status_code r = 200 then (case json_body r of Inl _ \<Rightarrow> None | Inr data \<Rightarrow> Some data)
          else None)"

definition lacks_path :: "json \<Rightarrow> string list \<Rightarrow> bool" where
  "lacks_path data path = (case get_path data path of Inl _ \<Rightarrow> True | Inr _ \<Rightarrow> False)"

text \<open>The status of a response.\<close>

definition status_of :: "exn + response \<Rightarrow> int option" where
  "status_of a = (case a of Inl _ \<Rightarrow> None | Inr r \<Rightarrow> Some (status_code r))"

text \<open>Names in a row, with a comma and a blank between them.\<close>

fun comma_separated :: "string list \<Rightarrow> string" where
  "comma_separated [] = []"
| "comma_separated (x # xs) = (if xs = [] then x else x @ '', '' @ comma_separated xs)"

text \<open>
  A title that is the name of a file and no path: \<^verbatim>\<open>/\<close> does not occur in it, so that
  \<^verbatim>\<open><title>.csv\<close> is an entry of the working directory itself.
\<close>

definition plain_title :: "string \<Rightarrow> bool" where
  "plain_title t = (CHR ''/'' \<notin> set t)"

subsection \<open>Sample collaborators\<close>

text \<open>Concrete collaborators on which the properties below are exercised.\<close>

text \<open>\<^verbatim>\<open>json.loads\<close> on the few texts used below; it refuses the others.\<close>

definition sample_loads :: "string \<Rightarrow> exn + json" where
  "sample_loads s =
     (if s = ''{}'' then Inr (JObj [])
      else if s = ''[]'' then Inr (JList [])
      else if s = ''{\"query_term\": \"asthma\", \"pageSize\": 3}''
        then Inr (JObj [(''query_term'', JStr ''asthma''), (''pageSize'', JInt 3)])
      else Inl (JSONDecodeError s))"

text \<open>
  \<^verbatim>\<open>json.dumps\<close> and \<^verbatim>\<open>str\<close> on values whose strings need no escape: the two differ in the
  quotation mark and in the words for \<^verbatim>\<open>None\<close>, \<^verbatim>\<open>True\<close> and \<^verbatim>\<open>False\<close>.
\<close>

datatype dialect = Json | Python

definition quote_mark :: "dialect \<Rightarrow> char" where
  "quote_mark n = (case n of Json \<Rightarrow> CHR 0x22 | Python \<Rightarrow> CHR 0x27)"

definition quoted :: "dialect \<Rightarrow> string \<Rightarrow> string" where
  "quoted n s = quote_mark n # s @ [quote_mark n]"

definition word_null :: "dialect \<Rightarrow> string" where
  "word_null n = (case n of Json \<Rightarrow> ''null'' | Python \<Rightarrow> ''None'')"

definition word_bool :: "dialect \<Rightarrow> bool \<Rightarrow> string" where
  "word_bool n b =
     (case n of Json \<Rightarrow> (if b then ''true'' else ''false'')
      | Python \<Rightarrow> (if b then ''True'' else ''False''))"

fun render :: "dialect \<Rightarrow> json \<Rightarrow> string"
  and render_elements :: "dialect \<Rightarrow> json list \<Rightarrow> string"
  and render_items :: "dialect \<Rightarrow> (string \<times> json) list \<Rightarrow> string"
where
  "render n JNull = word_null n"
| "render n (JBool b) = word_bool n b"
| "render n (JInt i) = str_int i"
| "render n (JStr s) = quoted n s"
| "render n (JList xs) = ''['' @ render_elements n xs @ '']''"
| "render n (JObj kvs) = ''{'' @ render_items n kvs @ ''}''"
| "render_elements n [] = []"
| "render_elements n (x # xs) =
     (if xs = [] then render n x else render n x @ '', '' @ render_elements n xs)"
| "render_items n [] = []"
| "render_items n (kv # kvs) =
     (if kvs = [] then quoted n (fst kv) @ '': '' @ render n (snd kv)
      else quoted n (fst kv) @ '': '' @ render n (snd kv) @ '', '' @ render_items n kvs)"

definition sample_dumps :: "json \<Rightarrow> string" where
  "sample_dumps v = render Json v"

definition sample_str :: "json \<Rightarrow> string" where
  "sample_str v = (case v of JStr s \<Rightarrow> s | _ \<Rightarrow> render Python v)"

text \<open>
  The canonical name of an absolute path in a file system without links: empty
  segments and \<^verbatim>\<open>.\<close> are dropped, \<^verbatim>\<open>..\<close> steps back.
\<close>

fun normal_segments :: "string list \<Rightarrow> string list \<Rightarrow> string list" where
  "normal_segments kept [] = kept"
| "normal_segments kept (seg # rest) =
     (if seg = [] \<or> seg = ''.'' then normal_segments kept rest
      else if seg = ''..'' then normal_segments (butlast kept) rest
      else normal_segments (kept @ [seg]) rest)"

definition sample_canonical :: "string \<Rightarrow> string" where
  "sample_canonical p =
     (case normal_segments [] (split_on CHR ''/'' p) of
        [] \<Rightarrow> ''/''
      | segs \<Rightarrow> concat (map (\<lambda>seg. CHR ''/'' # seg) segs))"

definition sample_exc_str :: "exn \<Rightarrow> string" where
  "sample_exc_str e = (case e of KeyError k \<Rightarrow> k | _ \<Rightarrow> ''error'')"

definition sample_env ::
  "(message list \<Rightarrow> ai_message) \<Rightarrow> (nat \<Rightarrow> string \<Rightarrow> dict \<Rightarrow> exn + response) \<Rightarrow> env" where
  "sample_env model server =
     \<lparr>openai_api_key = Some ''sk-sample'', llm = model, http_get = server,
      json_loads = sample_loads, json_dumps = sample_dumps, py_str = sample_str,
      exc_str = sample_exc_str, canonical = sample_canonical,
      open_fault = (\<lambda>p. None), write_fault = (\<lambda>p s. None)\<rparr>"

definition sample_world :: world where
  "sample_world = \<lparr>requests = 0, cwd = ''/home/app'', files = Map.empty\<rparr>"

text \<open>A working directory that holds an \<^verbatim>\<open>out.csv\<close> already.\<close>

definition stocked_world :: world where
  "stocked_world = sample_world\<lparr>files := [''/home/app/out.csv'' \<mapsto> ''old,text'']\<rparr>"

text \<open>A server that answers every request with the same status and body.\<close>

definition constant_server :: "int \<Rightarrow> exn + json \<Rightarrow> nat \<Rightarrow> string \<Rightarrow> dict \<Rightarrow> exn + response" where
  "constant_server code body n url params = Inr \<lparr>status_code = code, json_body = body\<rparr>"

text \<open>A model that answers with plain text, whatever the history.\<close>

definition text_answer :: "string \<Rightarrow> ai_message" where
  "text_answer s = \<lparr>ai_content = s, ai_function_call = None\<rparr>"

definition call_request :: "string \<Rightarrow> string \<Rightarrow> ai_message" where
  "call_request function_name arguments =
     \<lparr>ai_content = [],
      ai_function_call = Some \<lparr>fc_name = function_name, fc_arguments = arguments\<rparr>\<rparr>"

fun is_function_message :: "message \<Rightarrow> bool" where
  "is_function_message (FunctionMessage _ _) = True"
| "is_function_message (ChatMessage _ _) = False"

text \<open>
  A scripted model: it asks for the given call until the history holds a function
  result, then answers with the given text.
\<close>

definition scripted_model :: "ai_message \<Rightarrow> string \<Rightarrow> message list \<Rightarrow> ai_message" where
  "scripted_model request answer history =
     (if list_ex is_function_message history then text_answer answer else request)"

definition sample_study :: "string \<Rightarrow> string \<Rightarrow> json" where
  "sample_study title nct_id =
     JObj [(''protocolSection'',
            JObj [(''identificationModule'',
                   JObj [(''briefTitle'', JStr title), (''nctId'', JStr nct_id)])])]"

text \<open>The value a lookup returns, \<open>JNull\<close> standing in where it raises.\<close>

definition value_or_null :: "exn + json \<Rightarrow> json" where
  "value_or_null a = (case a of Inr v \<Rightarrow> v | Inl _ \<Rightarrow> JNull)"

definition quiet_model :: "message list \<Rightarrow> ai_message" where
  "quiet_model history = text_answer ''ok''"

definition not_found_env :: env where
  "not_found_env = sample_env quiet_model (constant_server 404 (Inl (JSONDecodeError [])))"

definition empty_record_env :: env where
  "empty_record_env = sample_env quiet_model (constant_server 200 (Inr (JObj [])))"

definition read_only_env :: env where
  "read_only_env = empty_record_env\<lparr>open_fault := (\<lambda>p. Some (OSError ''Permission denied''))\<rparr>"

definition three_studies :: json where
  "three_studies =
     JObj [(''studies'',
            JList [sample_study ''A'' ''NCT1'', sample_study ''B'' ''NCT2'',
                   sample_study ''C'' ''NCT3''])]"

definition search_env :: env where
  "search_env =
     sample_env
       (scripted_model
          (call_request ''study_search'' ''{\"query_term\": \"asthma\", \"pageSize\": 3}'')
          ''Found three studies.'')
       (constant_server 200 (Inr three_studies))"

definition unknown_call_env :: env where
  "unknown_call_env =
     sample_env (scripted_model (call_request ''lookup_trial'' ''{}'') ''done'')
       (constant_server 200 (Inr (JObj [])))"

text \<open>
  A server whose first answer is an empty document and whose later answers have status
  200 and a body that is no JSON text.
\<close>

definition broken_body_server :: "nat \<Rightarrow> string \<Rightarrow> dict \<Rightarrow> exn + response" where
  "broken_body_server n url params =
     (if n = 0 then Inr \<lparr>status_code = 200, json_body = Inr (JObj [])\<rparr>
      else Inr \<lparr>status_code = 200, json_body = Inl (JSONDecodeError ''Expecting value'')\<rparr>)"

definition broken_body_env :: env where
  "broken_body_env = sample_env quiet_model broken_body_server"

definition bad_arguments_env :: env where
  "bad_arguments_env =
     sample_env (scripted_model (call_request ''study_search'' ''{query_term: asthma'') ''done'')
       (constant_server 200 (Inr (JObj [])))"

section \<open>Properties\<close>

lemmas sample_defs =
  sample_env_def sample_world_def constant_server_def quiet_model_def text_answer_def
  call_request_def scripted_model_def sample_loads_def sample_dumps_def sample_str_def
  sample_exc_str_def quoted_def quote_mark_def word_null_def word_bool_def

subsection \<open>Identifier lists\<close>

text \<open>
  \<^verbatim>\<open>split\<close> returns one piece more than there are separators, so never the empty list
  (the first branch of the \<open>case\<close> in \<open>split_on\<close> is never taken), and no identifier
  holds a blank or a comma.
\<close>

lemma split_on_nonempty: "split_on sep s \<noteq> []"
  by (induction s) (auto split: list.splits)

lemma split_on_no_separator: "w \<in> set (split_on sep s) \<Longrightarrow> sep \<notin> set w"
  by (induction s arbitrary: w) (auto split: if_splits list.splits)

lemma split_on_chars: "w \<in> set (split_on sep s) \<Longrightarrow> set w \<subseteq> set s"
proof (induction s arbitrary: w)
  case Nil
  then show ?case by simp
next
  case (Cons c cs)
  show ?case
  proof (cases "c = sep")
    case True
    with Cons show ?thesis by auto
  next
    case False
    obtain v vs where split: "split_on sep cs = v # vs"
      using split_on_nonempty [of sep cs] by (cases "split_on sep cs") auto
    with False Cons.prems have "w = c # v \<or> w \<in> set vs" by simp
    moreover have "set v \<subseteq> set cs" using Cons.IH [of v] split by simp
    moreover have "w \<in> set vs \<Longrightarrow> set w \<subseteq> set cs" using Cons.IH [of w] split by simp
    ultimately show ?thesis by auto
  qed
qed

lemma split_ids_clean:
  assumes "x \<in> set (split_ids s)"
  shows "CHR '' '' \<notin> set x \<and> CHR '','' \<notin> set x"
  using split_on_no_separator [of x "CHR '',''" "remove_spaces s"]
    split_on_chars [of x "CHR '',''" "remove_spaces s"] assms
  by (auto simp: split_ids_def remove_spaces_def)

text \<open>
  C7. For the identifier string \<^verbatim>\<open>"NCT1,  NCT2,NCT3"\<close> the identifier list that
  \<^verbatim>\<open>get_field_info\<close> extracts is exactly \<^verbatim>\<open>["NCT1", "NCT2", "NCT3"]\<close>: the blanks are
  gone and the order of the input is kept.
\<close>

theorem split_ids_example:
  "split_ids ''NCT1,  NCT2,NCT3'' = [''NCT1'', ''NCT2'', ''NCT3'']"
  by (simp add: split_ids_def remove_spaces_def)

subsection \<open>\<^verbatim>\<open>study_search\<close>\<close>

lemma collect_studies_map:
  assumes "\<forall>s\<in>set studies. brief_title s = Inr (title s) \<and> nct_id_of s = Inr (ident s)"
  shows "collect_studies studies names ids = Inr (names @ map title studies, ids @ map ident studies)"
  using assms by (induction studies arbitrary: names ids) simp_all

text \<open>
  C5. When the search request is answered with status 200 and a document whose
  \<^verbatim>\<open>studies\<close> entry is a list of \<open>n\<close> studies, each with a brief title and an NCT
  identifier under \<^verbatim>\<open>protocolSection.identificationModule\<close>, \<^verbatim>\<open>study_search\<close> returns a
  dictionary whose \<^verbatim>\<open>Number of Results\<close> is \<open>n\<close> and whose \<^verbatim>\<open>Study Name\<close> and \<^verbatim>\<open>NCT_ID\<close>
  lists hold the titles and the identifiers of the studies, in the order of the response.
\<close>

theorem study_search_200:
  assumes "http_get E (requests w) search_url (search_params query_term pageSize) = Inr r"
    and "status_code r = 200"
    and "json_body r = Inr data"
    and "py_getitem data ''studies'' = Inr (JList studies)"
    and "\<forall>s\<in>set studies. brief_title s = Inr (title s) \<and> nct_id_of s = Inr (ident s)"
  shows "study_search E w query_term pageSize =
           (Inr (JObj [(''Query Term'', query_term),
                       (''Page Size'', pageSize),
                       (''Number of Results'', JInt (int (length studies))),
                       (''Study Name'', JList (map title studies)),
                       (''NCT_ID'', JList (map ident studies))]),
            tick w)"
  using assms(1-4) collect_studies_map [OF assms(5), of "[]" "[]"]
  by (simp add: study_search_def search_result_def py_iter_def)

text \<open>C5 on a response with three studies.\<close>

theorem study_search_200_witness:
  "study_search search_env sample_world (JStr ''asthma'') (JInt 3) =
     (Inr (JObj [(''Query Term'', JStr ''asthma''),
                 (''Page Size'', JInt 3),
                 (''Number of Results'', JInt 3),
                 (''Study Name'', JList [JStr ''A'', JStr ''B'', JStr ''C'']),
                 (''NCT_ID'', JList [JStr ''NCT1'', JStr ''NCT2'', JStr ''NCT3''])]),
      tick sample_world)"
proof -
  let ?studies = "[sample_study ''A'' ''NCT1'', sample_study ''B'' ''NCT2'', sample_study ''C'' ''NCT3'']"
  have h1: "http_get search_env (requests sample_world) search_url
              (search_params (JStr ''asthma'') (JInt 3))
              = Inr \<lparr>status_code = 200, json_body = Inr three_studies\<rparr>"
    by (simp add: search_env_def sample_defs)
  have h2: "status_code \<lparr>status_code = 200, json_body = Inr three_studies\<rparr> = 200"
    by simp
  have h3: "json_body \<lparr>status_code = 200, json_body = Inr three_studies\<rparr> = Inr three_studies"
    by simp
  have h4: "py_getitem three_studies ''studies'' = Inr (JList ?studies)"
    by (simp add: py_getitem_def three_studies_def)
  have h5: "\<forall>s\<in>set ?studies.
              brief_title s = Inr (value_or_null (brief_title s))
              \<and> nct_id_of s = Inr (value_or_null (nct_id_of s))"
    by (simp add: brief_title_def nct_id_of_def sample_study_def py_getitem_def value_or_null_def)
  from study_search_200 [OF h1 h2 h3 h4 h5] show ?thesis
    by (simp add: brief_title_def nct_id_of_def sample_study_def py_getitem_def value_or_null_def)
qed

text \<open>
  C8. When the search request is answered with a status code \<open>c\<close> other than 200,
  \<^verbatim>\<open>study_search\<close> returns a string, not a dictionary: the text
  \<^verbatim>\<open>Request failed with status code\<close> followed by the decimal digits of \<open>c\<close>.
\<close>

theorem study_search_non_200:
  assumes "http_get E (requests w) search_url (search_params query_term pageSize) = Inr r"
    and "status_code r \<noteq> 200"
  shows "study_search E w query_term pageSize =
           (Inr (JStr (''Request failed with status code '' @ str_int (status_code r))), tick w)"
  using assms by (simp add: study_search_def search_result_def status_message_def)

text \<open>C8 on a response with status 404.\<close>

theorem study_search_non_200_witness:
  "study_search not_found_env sample_world JNull (JInt 10) =
     (Inr (JStr ''Request failed with status code 404''), tick sample_world)"
proof -
  have h1: "http_get not_found_env (requests sample_world) search_url (search_params JNull (JInt 10))
              = Inr \<lparr>status_code = 404, json_body = Inl (JSONDecodeError [])\<rparr>"
    by (simp add: not_found_env_def sample_defs)
  have h2: "status_code \<lparr>status_code = 404, json_body = Inl (JSONDecodeError [])\<rparr> \<noteq> 200"
    by simp
  from study_search_non_200 [OF h1 h2] show ?thesis
    by (simp add: str_int_def str_nat.simps digit_char_def)
qed

subsection \<open>\<^verbatim>\<open>get_field_info\<close>\<close>

lemma select_field_all:
  "list_all (\<lambda>(f, path, fallback). select_field E (JStr f) data = try_path data path fallback)
     field_table"
  by (simp add: field_table_def select_field_def)

lemma select_field_table:
  assumes "(f, path, fallback) \<in> set field_table"
  shows "select_field E (JStr f) data = try_path data path fallback"
  using assms select_field_all [of E data] by (auto simp only: list_all_iff)

lemma select_field_other:
  assumes "f \<notin> set (map fst field_table)"
  shows "select_field E (JStr f) data = JStr (invalid_field_message E (JStr f))"
  using assms unfolding field_table_def select_field_def by simp

lemma try_path_lacking: "lacks_path data path \<Longrightarrow> try_path data path fallback = JStr fallback"
  by (simp add: lacks_path_def try_path_def split: sum.splits)

lemma map_of_init_loop:
  "map_of (init_loop ids d) x = (if x \<in> set ids then Some JNull else map_of d x)"
  by (induction ids arbitrary: d) (auto simp: update_conv')

lemma keys_init_loop: "fst ` set (init_loop ids d) = set ids \<union> fst ` set d"
  by (induction ids arbitrary: d) (auto simp: dom_update)

lemma fetch_loop_other:
  "fetch_loop E field ids w d = (Inr d', w') \<Longrightarrow> x \<notin> set ids \<Longrightarrow> map_of d' x = map_of d x"
  by (induction ids arbitrary: w d) (auto split: sum.splits simp: update_conv')

lemma fetch_loop_keys:
  "fetch_loop E field ids w d = (Inr d', w') \<Longrightarrow> fst ` set d' = set ids \<union> fst ` set d"
  by (induction ids arbitrary: w d) (auto split: sum.splits simp: dom_update)

lemma fetch_loop_returns:
  assumes "\<forall>j<length ids. \<exists>r t. http_get E (requests w + j) (study_url (ids ! j)) [] = Inr r
              \<and> temp_output E field r = Inr t"
  shows "\<exists>d'. fetch_loop E field ids w d = (Inr d', w\<lparr>requests := requests w + length ids\<rparr>)"
  using assms
proof (induction ids arbitrary: w d)
  case Nil
  then show ?case by simp
next
  case (Cons x xs)
  from Cons.prems [rule_format, of 0] obtain r t where
    r: "http_get E (requests w) (study_url x) [] = Inr r" and t: "temp_output E field r = Inr t"
    by auto
  have "\<forall>j<length xs. \<exists>r t. http_get E (requests (tick w) + j) (study_url (xs ! j)) [] = Inr r
              \<and> temp_output E field r = Inr t"
    using Cons.prems by (auto simp: tick_def dest: spec [where x = "Suc j" for j])
  from Cons.IH [OF this, of "AList.update x t d"] r t show ?case
    by (simp add: tick_def)
qed

lemma fetch_loop_last:
  assumes "fetch_loop E field ids w d = (Inr d', w')"
    and "j < length ids"
    and "\<forall>i<length ids. j < i \<longrightarrow> ids ! i \<noteq> ids ! j"
    and "http_get E (requests w + j) (study_url (ids ! j)) [] = Inr r"
    and "temp_output E field r = Inr t"
  shows "map_of d' (ids ! j) = Some t"
  using assms
proof (induction ids arbitrary: w d j)
  case Nil
  then show ?case by simp
next
  case (Cons x xs)
  from Cons.prems(1) obtain r0 t0 where
    r0: "http_get E (requests w) (study_url x) [] = Inr r0"
    and t0: "temp_output E field r0 = Inr t0"
    and rest: "fetch_loop E field xs (tick w) (AList.update x t0 d) = (Inr d', w')"
    by (auto split: sum.splits)
  show ?case
  proof (cases j)
    case 0
    have "x \<notin> set xs"
    proof
      assume "x \<in> set xs"
      then obtain i where "i < length xs" "xs ! i = x" by (auto simp: in_set_conv_nth)
      with Cons.prems(3) [rule_format, of "Suc i"] 0 show False by simp
    qed
    from fetch_loop_other [OF rest this] 0 Cons.prems(4,5) r0 t0 show ?thesis
      by (simp add: update_conv')
  next
    case (Suc k)
    have "\<forall>i<length xs. k < i \<longrightarrow> xs ! i \<noteq> xs ! k"
      using Cons.prems(3) Suc by (auto dest: spec [where x = "Suc i" for i])
    moreover have "http_get E (requests (tick w) + k) (study_url (xs ! k)) [] = Inr r"
      using Cons.prems(4) Suc by (simp add: tick_def)
    ultimately show ?thesis
      using Cons.IH [OF rest _ _ _ Cons.prems(5), of k] Cons.prems(2) Suc by simp
  qed
qed

lemma fetch_loop_every:
  assumes "fetch_loop E field ids w d = (Inr d', w')"
    and "\<forall>j<length ids. ids ! j = x \<longrightarrow>
           (\<exists>r. http_get E (requests w + j) (study_url x) [] = Inr r \<and> temp_output E field r = Inr t)"
    and "x \<in> set ids \<or> map_of d x = Some t"
  shows "map_of d' x = Some t"
  using assms
proof (induction ids arbitrary: w d)
  case Nil
  then show ?case by simp
next
  case (Cons y ys)
  from Cons.prems(1) obtain r0 t0 where
    r0: "http_get E (requests w) (study_url y) [] = Inr r0"
    and t0: "temp_output E field r0 = Inr t0"
    and rest: "fetch_loop E field ys (tick w) (AList.update y t0 d) = (Inr d', w')"
    by (auto split: sum.splits)
  have step: "\<forall>j<length ys. ys ! j = x \<longrightarrow>
           (\<exists>r. http_get E (requests (tick w) + j) (study_url x) [] = Inr r \<and> temp_output E field r = Inr t)"
    using Cons.prems(2) by (auto simp: tick_def dest: spec [where x = "Suc j" for j])
  have "x \<in> set ys \<or> map_of (AList.update y t0 d) x = Some t"
  proof (cases "y = x")
    case True
    with Cons.prems(2) [rule_format, of 0] r0 t0 show ?thesis by (simp add: update_conv')
  next
    case False
    with Cons.prems(3) show ?thesis by (auto simp: update_conv')
  qed
  from Cons.IH [OF rest step this] show ?case .
qed

lemma answered_temp_output:
  assumes "answered a"
  shows "\<exists>r t. a = Inr r \<and> temp_output E field r = Inr t"
proof (cases a)
  case (Inl e)
  with assms show ?thesis by (simp add: answered_def)
next
  case (Inr r)
  with assms show ?thesis
    by (cases "json_body r") (simp_all add: answered_def temp_output_def)
qed

lemma document_temp_output:
  assumes "document_of a = Some data"
  shows "\<exists>r. a = Inr r \<and> temp_output E field r = Inr (select_field E field data)"
proof (cases a)
  case (Inl e)
  with assms show ?thesis by (simp add: document_of_def)
next
  case (Inr r)
  with assms show ?thesis
    by (cases "json_body r"; cases "status_code r = 200")
       (simp_all add: document_of_def temp_output_def)
qed

lemma get_field_info_returns:
  assumes "\<forall>j<length (split_ids s). answered (nth_request E w (split_ids s) j)"
  shows "\<exists>d w'. get_field_info E w (JStr s) field = (Inr (JObj d), w')
           \<and> fetch_loop E field (split_ids s) w
                (init_loop (split_ids s)
                   [(''nct_ids'', JList (map JStr (split_ids s))), (''field'', field)])
              = (Inr d, w')"
proof -
  have "\<forall>j<length (split_ids s). \<exists>r t.
          http_get E (requests w + j) (study_url (split_ids s ! j)) [] = Inr r
          \<and> temp_output E field r = Inr t"
    using assms answered_temp_output [of _ E field] by (simp add: nth_request_def)
  from fetch_loop_returns [OF this] obtain d where
    "fetch_loop E field (split_ids s) w
       (init_loop (split_ids s)
          [(''nct_ids'', JList (map JStr (split_ids s))), (''field'', field)])
     = (Inr d, w\<lparr>requests := requests w + length (split_ids s)\<rparr>)"
    by blast
  then show ?thesis
    by (simp add: get_field_info_def Let_def)
qed

text \<open>
  \<^verbatim>\<open>get_field_info\<close> returns exactly when every request of the batch is answered; otherwise
  the exception of \<^verbatim>\<open>requests.get\<close> or \<^verbatim>\<open>response.json()\<close> leaves the function.
\<close>

lemma temp_output_answered: "temp_output E field r = Inr t \<Longrightarrow> answered (Inr r)"
  by (cases "json_body r") (auto simp: temp_output_def answered_def split: if_splits)

lemma fetch_loop_answered:
  assumes "fetch_loop E field ids w d = (Inr d', w')"
  shows "\<forall>j<length ids. answered (http_get E (requests w + j) (study_url (ids ! j)) [])"
  using assms
proof (induction ids arbitrary: w d)
  case Nil
  then show ?case by simp
next
  case (Cons x xs)
  from Cons.prems obtain r0 t0 where
    r0: "http_get E (requests w) (study_url x) [] = Inr r0"
    and t0: "temp_output E field r0 = Inr t0"
    and rest: "fetch_loop E field xs (tick w) (AList.update x t0 d) = (Inr d', w')"
    by (auto split: sum.splits)
  show ?case
  proof (intro allI impI)
    fix j assume j: "j < length (x # xs)"
    show "answered (http_get E (requests w + j) (study_url ((x # xs) ! j)) [])"
    proof (cases j)
      case 0
      with r0 temp_output_answered [OF t0] show ?thesis by simp
    next
      case (Suc k)
      with j Cons.IH [OF rest] show ?thesis by (simp add: tick_def)
    qed
  qed
qed

lemma get_field_info_returns_iff:
  "(\<exists>v w'. get_field_info E w (JStr s) field = (Inr v, w'))
     \<longleftrightarrow> (\<forall>j<length (split_ids s). answered (nth_request E w (split_ids s) j))"
proof
  assume "\<exists>v w'. get_field_info E w (JStr s) field = (Inr v, w')"
  then obtain d w' where
    "fetch_loop E field (split_ids s) w
       (init_loop (split_ids s)
          [(''nct_ids'', JList (map JStr (split_ids s))), (''field'', field)]) = (Inr d, w')"
    by (auto simp: get_field_info_def Let_def split: prod.splits sum.splits)
  from fetch_loop_answered [OF this]
  show "\<forall>j<length (split_ids s). answered (nth_request E w (split_ids s) j)"
    by (simp add: nth_request_def)
next
  assume "\<forall>j<length (split_ids s). answered (nth_request E w (split_ids s) j)"
  from get_field_info_returns [OF this, of field]
  show "\<exists>v w'. get_field_info E w (JStr s) field = (Inr v, w')"
    by blast
qed

text \<open>
  C6, as the code has it. Let the field be one of the eleven names of the table, and let
  every request of the batch be answered: \<^verbatim>\<open>requests.get\<close> returns a response and, for
  status 200, \<^verbatim>\<open>response.json()\<close> returns a document. For an identifier of the batch whose
  requests are all answered with status 200 and a document that lacks the path of the
  field, \<^verbatim>\<open>get_field_info\<close> returns and its result holds the fallback string of the field
  under that identifier: the missing path raises nothing that leaves the function.
\<close>

theorem get_field_info_fallback:
  assumes "(f, path, fallback) \<in> set field_table"
    and "ids = split_ids s"
    and "\<forall>j<length ids. answered (nth_request E w ids j)"
    and "x \<in> set ids"
    and "\<forall>j<length ids. ids ! j = x \<longrightarrow>
           (\<exists>data. document_of (nth_request E w ids j) = Some data \<and> lacks_path data path)"
  shows "\<exists>d w'. get_field_info E w (JStr s) (JStr f) = (Inr (JObj d), w')
           \<and> map_of d x = Some (JStr fallback)"
proof -
  from get_field_info_returns [of s E w "JStr f"] assms(2,3) obtain d w' where
    res: "get_field_info E w (JStr s) (JStr f) = (Inr (JObj d), w')"
    and loop: "fetch_loop E (JStr f) ids w
                 (init_loop ids [(''nct_ids'', JList (map JStr ids)), (''field'', JStr f)])
               = (Inr d, w')"
    by auto
  have "\<forall>j<length ids. ids ! j = x \<longrightarrow>
          (\<exists>r. http_get E (requests w + j) (study_url x) [] = Inr r
             \<and> temp_output E (JStr f) r = Inr (JStr fallback))"
  proof (intro allI impI)
    fix j assume j: "j < length ids" "ids ! j = x"
    with assms(5) obtain data where
      doc: "document_of (nth_request E w ids j) = Some data" and lack: "lacks_path data path"
      by auto
    from document_temp_output [OF doc, of E "JStr f"] j
    show "\<exists>r. http_get E (requests w + j) (study_url x) [] = Inr r
             \<and> temp_output E (JStr f) r = Inr (JStr fallback)"
      by (simp add: nth_request_def select_field_table [OF assms(1)] try_path_lacking [OF lack])
  qed
  from fetch_loop_every [OF loop this] assms(4) have "map_of d x = Some (JStr fallback)"
    by simp
  with res show ?thesis by simp
qed

text \<open>C6 on two identifiers, the server answering each with an empty document.\<close>

theorem get_field_info_fallback_witness:
  "\<exists>d w'. get_field_info empty_record_env sample_world (JStr ''NCT1, NCT2'') (JStr ''studyDesign'')
             = (Inr (JObj d), w')
         \<and> map_of d ''NCT2'' = Some (JStr ''No study design found'')"
proof -
  have h1: "(''studyDesign'', [''protocolSection'', ''designModule''], ''No study design found'')
              \<in> set field_table"
    by (simp add: field_table_def)
  have h2: "[''NCT1'', ''NCT2''] = split_ids ''NCT1, NCT2''"
    by (simp add: split_ids_def remove_spaces_def)
  have h3: "\<forall>j<length [''NCT1'', ''NCT2''].
              answered (nth_request empty_record_env sample_world [''NCT1'', ''NCT2''] j)"
    by (simp add: answered_def nth_request_def empty_record_env_def sample_defs)
  have h4: "''NCT2'' \<in> set [''NCT1'', ''NCT2'']"
    by simp
  have h5: "\<forall>j<length [''NCT1'', ''NCT2'']. [''NCT1'', ''NCT2''] ! j = ''NCT2'' \<longrightarrow>
              (\<exists>data. document_of (nth_request empty_record_env sample_world [''NCT1'', ''NCT2''] j)
                         = Some data
                 \<and> lacks_path data [''protocolSection'', ''designModule''])"
    by (simp add: document_of_def nth_request_def empty_record_env_def sample_defs
          lacks_path_def py_getitem_def)
  from get_field_info_fallback [OF h1 h2 h3 h4 h5] show ?thesis .
qed

text \<open>
  C6 as stated fails: only the lookups of the path stand inside a \<^verbatim>\<open>try\<close>. In the batch
  \<^verbatim>\<open>A,B\<close> the request for \<^verbatim>\<open>A\<close> is answered with status 200 and a document that lacks the
  path of \<^verbatim>\<open>studyDesign\<close>, the request for \<^verbatim>\<open>B\<close> with status 200 and a body that is no JSON
  text; \<^verbatim>\<open>response.json()\<close> raises, and \<^verbatim>\<open>get_field_info\<close> raises with it and returns no
  fallback for \<^verbatim>\<open>A\<close>.
\<close>

theorem get_field_info_fallback_counterexample:
  "(''studyDesign'', [''protocolSection'', ''designModule''], ''No study design found'')
     \<in> set field_table
   \<and> document_of (nth_request broken_body_env sample_world [''A'', ''B''] 0) = Some (JObj [])
   \<and> lacks_path (JObj []) [''protocolSection'', ''designModule'']
   \<and> get_field_info broken_body_env sample_world (JStr ''A,B'') (JStr ''studyDesign'') =
       (Inl (JSONDecodeError ''Expecting value''), sample_world\<lparr>requests := 2\<rparr>)"
  by (simp add: field_table_def document_of_def nth_request_def lacks_path_def py_getitem_def
        get_field_info_def split_ids_def remove_spaces_def temp_output_def select_field_def
        try_path_def tick_def broken_body_env_def broken_body_server_def sample_env_def
        sample_world_def)

lemma invalid_field_message_shape:
  "\<exists>names. (names = map fst field_table \<or> names = tl (map fst field_table))
     \<and> invalid_field_message E (JStr f) =
         ''Field '' @ f @ '' is not a valid field. Valid fields are: ''
           @ comma_separated names @ ''.''"
  by (rule exI [of _ "tl (map fst field_table)"])
     (simp add: field_table_def invalid_field_message_def py_format_def)

lemma status_temp_output:
  assumes "status_of a = Some c" and "c \<noteq> 200"
  shows "\<exists>r. a = Inr r \<and> temp_output E field r = Inr (JStr (status_message c))"
proof (cases a)
  case (Inl e)
  with assms show ?thesis by (simp add: status_of_def)
next
  case (Inr r)
  with assms show ?thesis by (auto simp: status_of_def temp_output_def)
qed

text \<open>
  C3, as the code has it. Let the field be a name outside the table, and let every
  request of the batch be answered, so that \<^verbatim>\<open>get_field_info\<close> returns. For an identifier
  of the batch whose requests are all answered with status 200 and a document, the
  result holds under that identifier the message
  \<^verbatim>\<open>Field <field> is not a valid field. Valid fields are: <names>.\<close>, where the names are
  the recognised field names in the order of the table, with a comma and a blank between
  them; whether the first of them, \<^verbatim>\<open>interventionAlone\<close>, is among the names is left open.
  For an identifier whose requests are all answered with one status other than 200, the
  result holds the status message instead.
\<close>

theorem get_field_info_invalid_field:
  assumes "f \<notin> set (map fst field_table)"
    and "ids = split_ids s"
    and "\<forall>j<length ids. answered (nth_request E w ids j)"
    and "x \<in> set ids"
  shows "\<exists>d w'. get_field_info E w (JStr s) (JStr f) = (Inr (JObj d), w')
           \<and> ((\<forall>j<length ids. ids ! j = x \<longrightarrow>
                   (\<exists>data. document_of (nth_request E w ids j) = Some data)) \<longrightarrow>
                (\<exists>names. (names = map fst field_table \<or> names = tl (map fst field_table))
                   \<and> map_of d x =
                       Some (JStr (''Field '' @ f @ '' is not a valid field. Valid fields are: ''
                                     @ comma_separated names @ ''.''))))
           \<and> (\<forall>c. c \<noteq> 200
                   \<and> (\<forall>j<length ids. ids ! j = x \<longrightarrow> status_of (nth_request E w ids j) = Some c) \<longrightarrow>
                 map_of d x = Some (JStr (''Request failed with status code '' @ str_int c)))"
proof -
  from get_field_info_returns [of s E w "JStr f"] assms(2,3) obtain d w' where
    res: "get_field_info E w (JStr s) (JStr f) = (Inr (JObj d), w')"
    and loop: "fetch_loop E (JStr f) ids w
                 (init_loop ids [(''nct_ids'', JList (map JStr ids)), (''field'', JStr f)])
               = (Inr d, w')"
    by auto
  from invalid_field_message_shape [of E f] obtain names where
    names: "names = map fst field_table \<or> names = tl (map fst field_table)"
    and shape: "invalid_field_message E (JStr f) =
                  ''Field '' @ f @ '' is not a valid field. Valid fields are: ''
                    @ comma_separated names @ ''.''"
    by blast
  have documents:
    "\<exists>names. (names = map fst field_table \<or> names = tl (map fst field_table))
       \<and> map_of d x =
           Some (JStr (''Field '' @ f @ '' is not a valid field. Valid fields are: ''
                         @ comma_separated names @ ''.''))"
    if all: "\<forall>j<length ids. ids ! j = x \<longrightarrow>
               (\<exists>data. document_of (nth_request E w ids j) = Some data)"
  proof -
    have "\<forall>j<length ids. ids ! j = x \<longrightarrow>
            (\<exists>r. http_get E (requests w + j) (study_url x) [] = Inr r
               \<and> temp_output E (JStr f) r = Inr (JStr (invalid_field_message E (JStr f))))"
    proof (intro allI impI)
      fix j assume j: "j < length ids" "ids ! j = x"
      with all obtain data where
        doc: "document_of (nth_request E w ids j) = Some data"
        by auto
      from document_temp_output [OF doc, of E "JStr f"] j
      show "\<exists>r. http_get E (requests w + j) (study_url x) [] = Inr r
               \<and> temp_output E (JStr f) r = Inr (JStr (invalid_field_message E (JStr f)))"
        by (simp add: nth_request_def select_field_other [OF assms(1)])
    qed
    from fetch_loop_every [OF loop this] assms(4)
    have "map_of d x = Some (JStr (invalid_field_message E (JStr f)))"
      by simp
    with names shape show ?thesis by auto
  qed
  have statuses:
    "map_of d x = Some (JStr (''Request failed with status code '' @ str_int c))"
    if c: "c \<noteq> 200"
      and all: "\<forall>j<length ids. ids ! j = x \<longrightarrow> status_of (nth_request E w ids j) = Some c"
    for c
  proof -
    have "\<forall>j<length ids. ids ! j = x \<longrightarrow>
            (\<exists>r. http_get E (requests w + j) (study_url x) [] = Inr r
               \<and> temp_output E (JStr f) r = Inr (JStr (status_message c)))"
    proof (intro allI impI)
      fix j assume j: "j < length ids" "ids ! j = x"
      with all have "status_of (nth_request E w ids j) = Some c"
        by simp
      from status_temp_output [OF this c, of E "JStr f"] j
      show "\<exists>r. http_get E (requests w + j) (study_url x) [] = Inr r
               \<and> temp_output E (JStr f) r = Inr (JStr (status_message c))"
        by (simp add: nth_request_def)
    qed
    from fetch_loop_every [OF loop this] assms(4) show ?thesis
      by (simp add: status_message_def)
  qed
  from res documents statuses show ?thesis by blast
qed

text \<open>
  C3, as the code has it, on one identifier and the field name \<^verbatim>\<open>color\<close>: once with a
  server that answers with a document, once with a server that answers with status 404.
\<close>

theorem get_field_info_invalid_field_witness:
  "(\<exists>d w' names.
      get_field_info empty_record_env sample_world (JStr ''NCT1'') (JStr ''color'')
        = (Inr (JObj d), w')
      \<and> (names = map fst field_table \<or> names = tl (map fst field_table))
      \<and> map_of d ''NCT1'' =
          Some (JStr (''Field color is not a valid field. Valid fields are: ''
                        @ comma_separated names @ ''.'')))
   \<and> (\<exists>d w'.
      get_field_info not_found_env sample_world (JStr ''NCT1'') (JStr ''color'')
        = (Inr (JObj d), w')
      \<and> map_of d ''NCT1'' = Some (JStr ''Request failed with status code 404''))"
proof -
  have h1: "''color'' \<notin> set (map fst field_table)"
    by (simp add: field_table_def)
  have h2: "[''NCT1''] = split_ids ''NCT1''"
    by (simp add: split_ids_def remove_spaces_def)
  have h3: "\<forall>j<length [''NCT1'']. answered (nth_request empty_record_env sample_world [''NCT1''] j)"
    by (simp add: answered_def nth_request_def empty_record_env_def sample_defs)
  have h3': "\<forall>j<length [''NCT1'']. answered (nth_request not_found_env sample_world [''NCT1''] j)"
    by (simp add: answered_def nth_request_def not_found_env_def sample_defs)
  have h4: "''NCT1'' \<in> set [''NCT1'']"
    by simp
  have doc: "\<forall>j<length [''NCT1'']. [''NCT1''] ! j = ''NCT1'' \<longrightarrow>
              (\<exists>data. document_of (nth_request empty_record_env sample_world [''NCT1''] j) = Some data)"
    by (simp add: document_of_def nth_request_def empty_record_env_def sample_defs)
  have status: "(404::int) \<noteq> 200
              \<and> (\<forall>j<length [''NCT1'']. [''NCT1''] ! j = ''NCT1'' \<longrightarrow>
                   status_of (nth_request not_found_env sample_world [''NCT1''] j) = Some 404)"
    by (simp add: status_of_def nth_request_def not_found_env_def sample_defs)
  have digits: "str_int 404 = ''404''"
    by (simp add: str_int_def str_nat.simps digit_char_def)
  from get_field_info_invalid_field [OF h1 h2 h3 h4] obtain d w' where
    res: "get_field_info empty_record_env sample_world (JStr ''NCT1'') (JStr ''color'')
            = (Inr (JObj d), w')"
    and documents: "(\<forall>j<length [''NCT1'']. [''NCT1''] ! j = ''NCT1'' \<longrightarrow>
                       (\<exists>data. document_of (nth_request empty_record_env sample_world [''NCT1''] j)
                                  = Some data)) \<longrightarrow>
                    (\<exists>names. (names = map fst field_table \<or> names = tl (map fst field_table))
                       \<and> map_of d ''NCT1'' =
                           Some (JStr (''Field '' @ ''color'' @ '' is not a valid field. Valid fields are: ''
                                         @ comma_separated names @ ''.'')))"
    by blast
  from documents doc obtain names where
    "names = map fst field_table \<or> names = tl (map fst field_table)"
    "map_of d ''NCT1'' =
       Some (JStr (''Field '' @ ''color'' @ '' is not a valid field. Valid fields are: ''
                     @ comma_separated names @ ''.''))"
    by blast
  with res have first: "\<exists>d w' names.
      get_field_info empty_record_env sample_world (JStr ''NCT1'') (JStr ''color'')
        = (Inr (JObj d), w')
      \<and> (names = map fst field_table \<or> names = tl (map fst field_table))
      \<and> map_of d ''NCT1'' =
          Some (JStr (''Field color is not a valid field. Valid fields are: ''
                        @ comma_separated names @ ''.''))"
    by (intro exI [of _ d] exI [of _ w'] exI [of _ names]) simp
  from get_field_info_invalid_field [OF h1 h2 h3' h4] obtain d2 w2 where
    res2: "get_field_info not_found_env sample_world (JStr ''NCT1'') (JStr ''color'')
            = (Inr (JObj d2), w2)"
    and statuses: "\<forall>c. c \<noteq> 200
                   \<and> (\<forall>j<length [''NCT1'']. [''NCT1''] ! j = ''NCT1'' \<longrightarrow>
                        status_of (nth_request not_found_env sample_world [''NCT1''] j) = Some c) \<longrightarrow>
                 map_of d2 ''NCT1'' = Some (JStr (''Request failed with status code '' @ str_int c))"
    by blast
  from statuses [rule_format, of 404] status digits
  have "map_of d2 ''NCT1'' = Some (JStr ''Request failed with status code 404'')"
    by simp
  with res2 have second: "\<exists>d w'.
      get_field_info not_found_env sample_world (JStr ''NCT1'') (JStr ''color'')
        = (Inr (JObj d), w')
      \<and> map_of d ''NCT1'' = Some (JStr ''Request failed with status code 404'')"
    by (intro exI [of _ d2] exI [of _ w2]) simp
  from first second show ?thesis ..
qed

text \<open>
  C3 as stated fails: the status of the response is tested before the field name, so for
  the unsupported field \<^verbatim>\<open>color\<close> and a request answered with status 404 the identifier
  gets the status message, not the message about valid fields.
\<close>

theorem get_field_info_invalid_field_counterexample:
  "''color'' \<notin> set (map fst field_table)
   \<and> get_field_info not_found_env sample_world (JStr ''NCT1'') (JStr ''color'') =
       (Inr (JObj [(''nct_ids'', JList [JStr ''NCT1'']),
                   (''field'', JStr ''color''),
                   (''NCT1'', JStr ''Request failed with status code 404'')]),
        tick sample_world)
   \<and> JStr ''Request failed with status code 404''
       \<noteq> JStr (invalid_field_message not_found_env (JStr ''color''))"
  by (simp add: field_table_def get_field_info_def split_ids_def remove_spaces_def
        not_found_env_def sample_defs temp_output_def status_message_def
        str_int_def str_nat.simps digit_char_def invalid_field_message_def py_format_def
        tick_def)

text \<open>
  C10. When \<^verbatim>\<open>get_field_info\<close> returns, the keys of its result are \<^verbatim>\<open>nct_ids\<close>, \<^verbatim>\<open>field\<close>
  and the identifiers. Under \<^verbatim>\<open>nct_ids\<close> is the list of identifiers and under \<^verbatim>\<open>field\<close>
  the field argument, unless that key is itself one of the identifiers. Under each
  identifier is the output of its last request; so for an identifier that reads
  \<^verbatim>\<open>nct_ids\<close> or \<^verbatim>\<open>field\<close>, that output has replaced the entry of the same name.
\<close>

theorem get_field_info_entries:
  assumes "ids = split_ids s"
    and "\<forall>j<length ids. answered (nth_request E w ids j)"
  shows "\<exists>d w'. get_field_info E w (JStr s) field = (Inr (JObj d), w')
           \<and> fst ` set d = {''nct_ids'', ''field''} \<union> set ids
           \<and> (''nct_ids'' \<notin> set ids \<longrightarrow> map_of d ''nct_ids'' = Some (JList (map JStr ids)))
           \<and> (''field'' \<notin> set ids \<longrightarrow> map_of d ''field'' = Some field)
           \<and> (\<forall>j<length ids. (\<forall>i<length ids. j < i \<longrightarrow> ids ! i \<noteq> ids ! j) \<longrightarrow>
                 (\<exists>r t. nth_request E w ids j = Inr r \<and> temp_output E field r = Inr t
                    \<and> map_of d (ids ! j) = Some t))"
proof -
  let ?d0 = "init_loop ids [(''nct_ids'', JList (map JStr ids)), (''field'', field)]"
  from get_field_info_returns [of s E w field] assms obtain d w' where
    res: "get_field_info E w (JStr s) field = (Inr (JObj d), w')"
    and loop: "fetch_loop E field ids w ?d0 = (Inr d, w')"
    by auto
  have keys: "fst ` set d = {''nct_ids'', ''field''} \<union> set ids"
    using fetch_loop_keys [OF loop] by (auto simp: keys_init_loop)
  have meta1: "''nct_ids'' \<notin> set ids \<longrightarrow> map_of d ''nct_ids'' = Some (JList (map JStr ids))"
    using fetch_loop_other [OF loop, of "''nct_ids''"] by (simp add: map_of_init_loop)
  have meta2: "''field'' \<notin> set ids \<longrightarrow> map_of d ''field'' = Some field"
    using fetch_loop_other [OF loop, of "''field''"] by (simp add: map_of_init_loop)
  have per_id: "\<forall>j<length ids. (\<forall>i<length ids. j < i \<longrightarrow> ids ! i \<noteq> ids ! j) \<longrightarrow>
                 (\<exists>r t. nth_request E w ids j = Inr r \<and> temp_output E field r = Inr t
                    \<and> map_of d (ids ! j) = Some t)"
  proof (intro allI impI)
    fix j assume j: "j < length ids" and last: "\<forall>i<length ids. j < i \<longrightarrow> ids ! i \<noteq> ids ! j"
    from assms(2) j answered_temp_output [of "nth_request E w ids j" E field] obtain r t where
      r: "nth_request E w ids j = Inr r" and t: "temp_output E field r = Inr t"
      by auto
    from fetch_loop_last [OF loop j last _ t] r have "map_of d (ids ! j) = Some t"
      by (simp add: nth_request_def)
    with r t show "\<exists>r t. nth_request E w ids j = Inr r \<and> temp_output E field r = Inr t
                    \<and> map_of d (ids ! j) = Some t"
      by simp
  qed
  from res keys meta1 meta2 per_id show ?thesis by blast
qed

text \<open>C10 on the identifier string \<^verbatim>\<open>nct_ids\<close>, the server answering with status 404.\<close>

theorem get_field_info_entries_witness:
  "\<exists>d w'. get_field_info not_found_env sample_world (JStr ''nct_ids'') (JStr ''studyDesign'')
             = (Inr (JObj d), w')
         \<and> fst ` set d = {''nct_ids'', ''field''}
         \<and> map_of d ''field'' = Some (JStr ''studyDesign'')
         \<and> map_of d ''nct_ids'' = Some (JStr ''Request failed with status code 404'')"
proof -
  have h1: "[''nct_ids''] = split_ids ''nct_ids''"
    by (simp add: split_ids_def remove_spaces_def)
  have h2: "\<forall>j<length [''nct_ids''].
              answered (nth_request not_found_env sample_world [''nct_ids''] j)"
    by (simp add: answered_def nth_request_def not_found_env_def sample_defs)
  from get_field_info_entries [OF h1 h2, of "JStr ''studyDesign''"] show ?thesis
    by (auto simp: nth_request_def not_found_env_def sample_defs temp_output_def
          status_message_def str_int_def str_nat.simps digit_char_def)
qed

subsection \<open>\<^verbatim>\<open>save_csv\<close>\<close>

lemma resolve_plain:
  "plain_title title \<Longrightarrow> resolve_path dir (title @ ''.csv'') = dir @ ''/'' @ title @ ''.csv''"
  by (cases title) (auto simp: plain_title_def resolve_path_def)

text \<open>
  C9, as the code has it. Let the title be a string without \<^verbatim>\<open>/\<close>, so that
  \<^verbatim>\<open><title>.csv\<close> is an entry of the working directory, and let the target be the file
  that the working directory, \<^verbatim>\<open>/\<close>, the title and \<^verbatim>\<open>.csv\<close> name. When neither \<^verbatim>\<open>open\<close> nor
  \<^verbatim>\<open>write\<close> raises, the target holds exactly the text afterwards, whatever it held
  before, no other file changes, and the result is \<^verbatim>\<open>Saved to:\<close> followed by that
  absolute path. When \<^verbatim>\<open>open\<close> or \<^verbatim>\<open>write\<close> raises, the result is \<^verbatim>\<open>Error saving file: \<close>
  followed by the text of the exception.
\<close>

theorem save_csv_plain_title:
  assumes "plain_title title"
    and "target = canonical E (cwd w @ ''/'' @ title @ ''.csv'')"
  shows "(open_fault E target = None \<and> write_fault E target text = None \<longrightarrow>
            save_csv E w (JStr text) (JStr title) =
              (Inr (JStr (''Saved to:'' @ cwd w @ ''/'' @ title @ ''.csv'')),
               w\<lparr>files := (files w)(target \<mapsto> text)\<rparr>))
       \<and> (\<forall>e. open_fault E target = Some e \<longrightarrow>
            save_csv E w (JStr text) (JStr title) =
              (Inr (JStr (''Error saving file: '' @ exc_str E e)), w))
       \<and> (\<forall>written e. open_fault E target = None \<and> write_fault E target text = Some (written, e) \<longrightarrow>
            save_csv E w (JStr text) (JStr title) =
              (Inr (JStr (''Error saving file: '' @ exc_str E e)),
               w\<lparr>files := (files w)(target \<mapsto> written)\<rparr>))"
  using assms
  by (simp add: save_csv_def resolve_plain saving_error_def write_file_def Let_def)

text \<open>
  C9, as the code has it, on the title \<^verbatim>\<open>out\<close> in a working directory that holds an
  \<^verbatim>\<open>out.csv\<close> already: once written, once refused.
\<close>

theorem save_csv_plain_title_witness:
  "save_csv empty_record_env stocked_world (JStr ''a,b\<newline>1,2'') (JStr ''out'') =
     (Inr (JStr ''Saved to:/home/app/out.csv''),
      stocked_world\<lparr>files := [''/home/app/out.csv'' \<mapsto> ''a,b\<newline>1,2'']\<rparr>)
   \<and> save_csv read_only_env stocked_world (JStr ''a,b\<newline>1,2'') (JStr ''out'') =
     (Inr (JStr ''Error saving file: error''), stocked_world)"
proof -
  have h1: "plain_title ''out''"
    by (simp add: plain_title_def)
  have h2: "''/home/app/out.csv'' = canonical empty_record_env (cwd stocked_world @ ''/'' @ ''out'' @ ''.csv'')"
    by (simp add: stocked_world_def sample_world_def empty_record_env_def sample_env_def
          sample_canonical_def)
  have h2': "''/home/app/out.csv'' = canonical read_only_env (cwd stocked_world @ ''/'' @ ''out'' @ ''.csv'')"
    by (simp add: stocked_world_def sample_world_def read_only_env_def empty_record_env_def
          sample_env_def sample_canonical_def)
  from save_csv_plain_title [OF h1 h2, of "''a,b\<newline>1,2''"]
       save_csv_plain_title [OF h1 h2', of "''a,b\<newline>1,2''"]
  show ?thesis
    by (simp add: empty_record_env_def read_only_env_def stocked_world_def sample_defs)
qed

text \<open>
  C9 as stated fails for a title that is a path. With the working directory
  \<^verbatim>\<open>/home/app\<close> and the title \<^verbatim>\<open>/tmp/out\<close> the file written is \<^verbatim>\<open>/tmp/out.csv\<close>, outside the
  working directory, and the path returned, \<^verbatim>\<open>/home/app//tmp/out.csv\<close>, names another
  file, which does not exist. With the title \<^verbatim>\<open>../out\<close> the file written is
  \<^verbatim>\<open>/home/out.csv\<close>, outside the working directory as well.
\<close>

theorem save_csv_path_title_counterexample:
  "save_csv empty_record_env sample_world (JStr ''a,b'') (JStr ''/tmp/out'') =
     (Inr (JStr ''Saved to:/home/app//tmp/out.csv''),
      sample_world\<lparr>files := [''/tmp/out.csv'' \<mapsto> ''a,b'']\<rparr>)
   \<and> canonical empty_record_env ''/home/app//tmp/out.csv'' = ''/home/app/tmp/out.csv''
   \<and> [''/tmp/out.csv'' \<mapsto> ''a,b''] ''/home/app/tmp/out.csv'' = None
   \<and> save_csv empty_record_env sample_world (JStr ''a,b'') (JStr ''../out'') =
     (Inr (JStr ''Saved to:/home/app/../out.csv''),
      sample_world\<lparr>files := [''/home/out.csv'' \<mapsto> ''a,b'']\<rparr>)"
  by (simp add: save_csv_def resolve_path_def write_file_def empty_record_env_def
        sample_env_def sample_world_def sample_canonical_def)

subsection \<open>The dispatch loop\<close>

text \<open>
  The two statements before the \<^verbatim>\<open>try\<close> can raise, and then the loop is left with the
  exception; a failure to bind the arguments happens inside the \<^verbatim>\<open>try\<close> and becomes the
  content of the function message, after which the model is asked again.
\<close>

lemma dispatch_unknown_name:
  assumes "ai_function_call response = Some fc" and "function_map (fc_name fc) = None"
  shows "dispatch_loop E w messages response = Some (Raised (KeyError (fc_name fc)), w, messages)"
  using assms by (subst dispatch_loop.simps) simp

lemma dispatch_unparsed_arguments:
  assumes "ai_function_call response = Some fc" and "function_map (fc_name fc) = Some f"
    and "json_loads E (fc_arguments fc) = Inl e"
  shows "dispatch_loop E w messages response = Some (Raised e, w, messages)"
  using assms by (subst dispatch_loop.simps) simp

lemma binding_failure_is_result:
  assumes "bind_arguments f function_args = Inl e"
  shows "call_function E f function_args w = (Inl e, w)"
    and "function_response E (fst (call_function E f function_args w)) =
           JStr (''Function call failed with error: '' @ exc_str E e)"
  using assms by (simp_all add: call_function_def function_response_def)


lemma binding_failure_round:
  assumes "ai_function_call response = Some fc"
    and "function_map (fc_name fc) = Some f"
    and "json_loads E (fc_arguments fc) = Inr function_args"
    and "bind_arguments f function_args = Inl e"
    and "messages2 = messages @
           [ChatMessage ''system'' (function_call_message E (fc_name fc) function_args),
            FunctionMessage (fc_name fc)
              (json_dumps E (JStr (''Function call failed with error: '' @ exc_str E e)))]"
  shows "dispatch_loop E w messages response = dispatch_loop E w messages2 (llm E messages2)"
  using assms
  by (subst dispatch_loop.simps) (simp add: Let_def call_function_def function_response_def)



text \<open>
  C1 does not hold of the code: \<^verbatim>\<open>function_map[function_name]\<close> stands before the
  \<^verbatim>\<open>try\<close>, so for the unregistered name \<^verbatim>\<open>lookup_trial\<close> the turn ends with a
  \<^verbatim>\<open>KeyError\<close>, and the history has gained the user message only: no notice, no function
  result, no answer.
\<close>

theorem unknown_function_raises:
  "run_turn unknown_call_env sample_world [] ''hello'' =
     Some (Raised (KeyError ''lookup_trial''), sample_world, [ChatMessage ''user'' ''hello''])"
  by (simp add: run_turn_def unknown_call_env_def sample_defs function_map_def
        dispatch_unknown_name)

text \<open>
  C2 does not hold of the code: \<^verbatim>\<open>json.loads\<close> stands before the \<^verbatim>\<open>try\<close> as well, so for
  arguments that are no JSON text the turn ends with the exception of \<^verbatim>\<open>json.loads\<close>.
  (Arguments that parse and then fail to bind are caught, see \<open>binding_failure_round\<close>.)
\<close>

theorem unparsed_arguments_raise:
  "run_turn bad_arguments_env sample_world [] ''hello'' =
     Some (Raised (JSONDecodeError ''{query_term: asthma''), sample_world,
           [ChatMessage ''user'' ''hello''])"
  by (simp add: run_turn_def bad_arguments_env_def sample_defs function_map_def
        dispatch_unparsed_arguments [where f = StudySearch])

end
